theory Spec2Isabelle
  imports Complex_Main "HOL-Library.Sublist"
begin

section \<open>Python values\<close>

text \<open>
  A Python \<open>str\<close> is a sequence of Unicode code points; the texts of \<open>app.py\<close> contain
  characters beyond ASCII, and \<open>str.strip\<close> works on code points, so a string is modelled
  as the list of its code points. \<open>ascii\<close> reads an ASCII literal.
\<close>

type_synonym pystr = "nat list"

definition ascii :: "string \<Rightarrow> pystr" where
  "ascii s = map of_char s"

text \<open>
  What \<open>response.json()\<close> can return, and what is sent as the \<open>json=\<close> argument: \<open>None\<close>,
  booleans, integers, floats, strings, lists and dicts with string keys. A dict is an
  association list read with \<open>map_of\<close>. Floats are only carried around, never computed
  with, so a float is modelled by the number it is written as.
\<close>

datatype pyval =
    PNone
  | PBool bool
  | PInt int
  | PFloat real
  | PStr pystr
  | PList "pyval list"
  | PDict "(pystr \<times> pyval) list"

text \<open>
  The exceptions that can be raised inside the \<open>try\<close> block of
  \<open>explain_with_huggingface\<close>. All of them are subclasses of \<open>Exception\<close>.
  \<open>Exception v\<close> is \<open>raise Exception(v)\<close> (lines 77 and 88); \<open>SecretsError\<close> is what
  \<open>st.secrets.get\<close> raises when the application has no secrets file at all;
  \<open>RequestException\<close> is whatever \<open>requests.post\<close> raises (connection failure, timeout);
  \<open>JSONDecodeError\<close> is what \<open>response.json()\<close> raises on a body that is not JSON;
  the last three come from the subscripts of line 90. \<open>AttributeError\<close> is raised by the
  script (line 162), outside the function.
\<close>

datatype exn =
    Exception pyval
  | SecretsError pystr
  | RequestException pystr
  | JSONDecodeError pystr
  | IndexError
  | KeyError pyval
  | TypeError
  | AttributeError

text \<open>\<open>data[0]\<close> for a value that came out of the JSON parser.\<close>

fun getitem_0 :: "pyval \<Rightarrow> exn + pyval" where
  "getitem_0 (PList []) = Inl IndexError"
| "getitem_0 (PList (x # xs)) = Inr x"
| "getitem_0 (PStr []) = Inl IndexError"
| "getitem_0 (PStr (c # cs)) = Inr (PStr [c])"
| "getitem_0 (PDict obj) = Inl (KeyError (PInt 0))"
| "getitem_0 PNone = Inl TypeError"
| "getitem_0 (PBool b) = Inl TypeError"
| "getitem_0 (PInt i) = Inl TypeError"
| "getitem_0 (PFloat f) = Inl TypeError"

text \<open>\<open>x[k]\<close> for a string key \<open>k\<close>: only a dict can be subscripted by a string.\<close>

fun getitem_key :: "pyval \<Rightarrow> pystr \<Rightarrow> exn + pyval" where
  "getitem_key (PDict obj) k =
     (case map_of obj k of None \<Rightarrow> Inl (KeyError (PStr k)) | Some v \<Rightarrow> Inr v)"
| "getitem_key PNone k = Inl TypeError"
| "getitem_key (PBool b) k = Inl TypeError"
| "getitem_key (PInt i) k = Inl TypeError"
| "getitem_key (PFloat f) k = Inl TypeError"
| "getitem_key (PStr s) k = Inl TypeError"
| "getitem_key (PList xs) k = Inl TypeError"

text \<open>\<open>isinstance(data, dict) and k in data\<close>.\<close>

fun is_dict_with :: "pyval \<Rightarrow> pystr \<Rightarrow> bool" where
  "is_dict_with (PDict obj) k = (map_of obj k \<noteq> None)"
| "is_dict_with PNone k = False"
| "is_dict_with (PBool b) k = False"
| "is_dict_with (PInt i) k = False"
| "is_dict_with (PFloat f) k = False"
| "is_dict_with (PStr s) k = False"
| "is_dict_with (PList xs) k = False"

section \<open>The environment of the explainer\<close>

text \<open>
  \<open>st.secrets\<close>: either there is no secrets file, and any access raises, or it is a
  mapping from names to values, modelled as an association list read with \<open>map_of\<close>.
  \<open>secrets_get s k d\<close> is \<open>st.secrets.get(k, d)\<close>.
\<close>

datatype secrets = NoSecrets pystr | Secrets "(pystr \<times> pystr) list"

fun secrets_get :: "secrets \<Rightarrow> pystr \<Rightarrow> pystr \<Rightarrow> exn + pystr" where
  "secrets_get (NoSecrets msg) k d = Inl (SecretsError msg)"
| "secrets_get (Secrets kvs) k d = (case map_of kvs k of None \<Rightarrow> Inr d | Some v \<Rightarrow> Inr v)"

text \<open>
  What the remote service does with the one request it is sent: \<open>requests.post\<close> raises,
  or it returns a response whose \<open>json()\<close> raises, or \<open>json()\<close> returns a value. The
  status code of the response is never read by the program.
\<close>

datatype remote = PostRaises exn | JsonRaises exn | Data pyval

record request =
  url :: pystr
  headers :: "(pystr \<times> pystr) list"
  json :: pyval
  timeout :: int

text \<open>
  The elements the script puts on the page, with the values that are interpolated into
  their HTML templates, and the effects of a run in the order they happen.
\<close>

datatype element =
    TextArea pystr
  | Button pystr
  | Subheader pystr
  | Warning pystr
  | WarningApiFailed exn
  | AwaitingInput
  | VerdictBox pystr pystr pystr pystr
  | ReasoningBox pystr pystr "pystr list"
  | Tip

datatype event =
    HttpPost request
  | St element
  | CallPredict pystr
  | CallExplain pystr int

fun is_post :: "event \<Rightarrow> bool" where
  "is_post (HttpPost r) = True"
| "is_post (St e) = False"
| "is_post (CallPredict a) = False"
| "is_post (CallExplain a r) = False"

section \<open>The explainer: \<open>explain_with_huggingface\<close>\<close>

text \<open>The classifier's output is an integer class code; the program only tests \<open>result == 1\<close>.\<close>

definition verdict_text :: "int \<Rightarrow> pystr" where
  "verdict_text result = (if result = 1 then ascii ''REAL'' else ascii ''FAKE'')"

definition nl :: pystr where
  "nl = [10]"

definition indent :: pystr where
  "indent = ascii ''        ''"

text \<open>The f-string of lines 58 to 72.\<close>

definition prompt :: "pystr \<Rightarrow> int \<Rightarrow> pystr" where
  "prompt article result =
     nl
     @ indent @ ascii ''Analyze the following news article and determine if it is ''
       @ verdict_text result @ ascii ''.'' @ nl
     @ indent @ ascii ''Provide reasoning in points under each section:'' @ nl
     @ nl
     @ indent @ ascii ''1. Summary '' @ [0x1F4C4] @ nl
     @ indent @ ascii ''2. Tone '' @ [0x270D, 0xFE0F] @ nl
     @ indent @ ascii ''3. Credibility '' @ [0x1F50D] @ nl
     @ indent @ ascii ''4. Evidence '' @ [0x1F4CA] @ nl
     @ indent @ ascii ''5. Conclusion '' @ [0x1F3AF] @ nl
     @ nl
     @ indent @ ascii ''Article:'' @ nl
     @ indent @ article @ nl
     @ nl
     @ indent @ ascii ''Format your response in points under each section.'' @ nl
     @ indent"

definition API_URL :: pystr where
  "API_URL = ascii ''https://api-inference.huggingface.co/models/facebook/blenderbot-400M-distill''"

definition default_max_tokens :: int where
  "default_max_tokens = 500"

definition default_temperature :: real where
  "default_temperature = 7 / 10"

definition the_headers :: "pystr \<Rightarrow> (pystr \<times> pystr) list" where
  "the_headers key = [(ascii ''Authorization'', ascii ''Bearer '' @ key)]"

definition the_request :: "pystr \<Rightarrow> pystr \<Rightarrow> int \<Rightarrow> int \<Rightarrow> real \<Rightarrow> request" where
  "the_request key article result max_tokens temperature =
     \<lparr> url = API_URL,
       headers = the_headers key,
       json = PDict [(ascii ''inputs'', PStr (prompt article result)),
                     (ascii ''parameters'',
                        PDict [(ascii ''max_new_tokens'', PInt max_tokens),
                               (ascii ''temperature'', PFloat temperature)])],
       timeout = 60 \<rparr>"

text \<open>The two canned texts of lines 95 to 110.\<close>

definition reasoning_real :: pystr where
  "reasoning_real =
     ascii ''1. Summary '' @ [0x1F4C4] @ ascii '': '' @ [0x2705]
       @ ascii '' Article is factually correct.'' @ nl
     @ ascii ''2. Tone '' @ [0x270D, 0xFE0F] @ ascii '': Neutral.'' @ nl
     @ ascii ''3. Credibility '' @ [0x1F50D] @ ascii '': Reliable sources.'' @ nl
     @ ascii ''4. Evidence '' @ [0x1F4CA] @ ascii '': Supported by data.'' @ nl
     @ ascii ''5. Conclusion '' @ [0x1F3AF] @ ascii '': Likely real; trustworthy.''"

definition reasoning_fake :: pystr where
  "reasoning_fake =
     ascii ''1. Summary '' @ [0x1F4C4] @ ascii '': '' @ [0x1F6A8]
       @ ascii '' Misleading claims.'' @ nl
     @ ascii ''2. Tone '' @ [0x270D, 0xFE0F] @ ascii '': Sensational.'' @ nl
     @ ascii ''3. Credibility '' @ [0x1F50D] @ ascii '': Unreliable sources.'' @ nl
     @ ascii ''4. Evidence '' @ [0x1F4CA] @ ascii '': Unsupported.'' @ nl
     @ ascii ''5. Conclusion '' @ [0x1F3AF] @ ascii '': Likely fake; verify before trusting.''"

definition fallback_reasoning :: "int \<Rightarrow> pystr" where
  "fallback_reasoning result = (if result = 1 then reasoning_real else reasoning_fake)"

text \<open>
  Lines 86 to 90: what is done with the parsed body. The result is the value found under
  \<open>generated_text\<close>, whatever its type, or the exception raised on the way.
\<close>

definition read_data :: "pyval \<Rightarrow> exn + pyval" where
  "read_data data =
     (if is_dict_with data (ascii ''error'')
      then (case getitem_key data (ascii ''error'') of
              Inl e \<Rightarrow> Inl e
            | Inr v \<Rightarrow> Inl (Exception v))
      else (case getitem_0 data of
              Inl e \<Rightarrow> Inl e
            | Inr first \<Rightarrow> getitem_key first (ascii ''generated_text'')))"

text \<open>
  The \<open>try\<close> block, lines 58 to 90: the value it returns or the exception it raises,
  with the effects it had until then. The test of line 76 is on the whole header value,
  \<open>"Bearer "\<close> followed by the key.
\<close>

definition try_block ::
  "secrets \<Rightarrow> pystr \<Rightarrow> int \<Rightarrow> int \<Rightarrow> real \<Rightarrow> remote \<Rightarrow> (exn + pyval \<times> bool) \<times> event list" where
  "try_block secrets article result max_tokens temperature remote =
     (case secrets_get secrets (ascii ''HF_API_KEY'') [] of
        Inl e \<Rightarrow> (Inl e, [])
      | Inr key \<Rightarrow>
          (let hdrs = the_headers key in
           if map_of hdrs (ascii ''Authorization'') = Some []
           then (Inl (Exception (PStr (ascii ''HF_API_KEY not found in Streamlit secrets!''))), [])
           else
             (let req = the_request key article result max_tokens temperature in
              case remote of
                PostRaises e \<Rightarrow> (Inl e, [HttpPost req])
              | JsonRaises e \<Rightarrow> (Inl e, [HttpPost req])
              | Data data \<Rightarrow>
                  (case read_data data of
                     Inl e \<Rightarrow> (Inl e, [HttpPost req])
                   | Inr text \<Rightarrow> (Inr (text, True), [HttpPost req])))))"

text \<open>
  The whole function: the \<open>except Exception\<close> handler of lines 92 to 111 turns every
  exception of the block into a warning and the canned text for the label.
\<close>

definition explain_with_huggingface ::
  "secrets \<Rightarrow> pystr \<Rightarrow> int \<Rightarrow> int \<Rightarrow> real \<Rightarrow> remote \<Rightarrow> (pyval \<times> bool) \<times> event list" where
  "explain_with_huggingface secrets article result max_tokens temperature remote =
     (case try_block secrets article result max_tokens temperature remote of
        (Inr r, evs) \<Rightarrow> (r, evs)
      | (Inl e, evs) \<Rightarrow>
          ((PStr (fallback_reasoning result), False), evs @ [St (WarningApiFailed e)]))"

section \<open>The result as the specification names it\<close>

text \<open>
  The function returns a pair \<open>(reasoning_text, is_dynamic)\<close>. The specification calls it
  an Explanation with a text and a source, \<open>REMOTE\<close> when \<open>is_dynamic\<close> is true and
  \<open>FALLBACK\<close> otherwise, and calls the two outcomes of \<open>result == 1\<close> the labels
  \<open>REAL\<close> and \<open>FAKE\<close>.
\<close>

datatype source = REMOTE | FALLBACK

record explanation =
  expl_text :: pyval
  expl_source :: source

definition explain :: "secrets \<Rightarrow> pystr \<Rightarrow> int \<Rightarrow> int \<Rightarrow> real \<Rightarrow> remote \<Rightarrow> explanation" where
  "explain secrets article result max_tokens temperature remote =
     (case fst (explain_with_huggingface secrets article result max_tokens temperature remote) of
        (reasoning, is_dynamic) \<Rightarrow>
          \<lparr> expl_text = reasoning, expl_source = (if is_dynamic then REMOTE else FALLBACK) \<rparr>)"

datatype label = REAL | FAKE

definition label_of :: "int \<Rightarrow> label" where
  "label_of result = (if result = 1 then REAL else FAKE)"

fun template :: "label \<Rightarrow> pystr" where
  "template REAL = reasoning_real"
| "template FAKE = reasoning_fake"

text \<open>
  The failure modes the specification lists, as the program meets them: the request
  raises (no network, timeout), the body is not JSON, the body is an object with an
  \<open>error\<close> field (which is also how the service reports a rejected credential), or
  the body has no \<open>generated_text\<close> field in an object at the head of an array.
\<close>

fun has_generated_text :: "pyval \<Rightarrow> bool" where
  "has_generated_text (PList (PDict obj # rest)) = (map_of obj (ascii ''generated_text'') \<noteq> None)"
| "has_generated_text other = False"

fun failure_mode :: "remote \<Rightarrow> bool" where
  "failure_mode (PostRaises e) = True"
| "failure_mode (JsonRaises e) = True"
| "failure_mode (Data data) = (is_dict_with data (ascii ''error'') \<or> \<not> has_generated_text data)"

section \<open>The script\<close>

text \<open>
  \<open>str.strip()\<close> removes the leading and trailing characters for which \<open>str.isspace\<close>
  holds; \<open>str.split('\n')\<close> cuts at every line feed and keeps empty pieces.
\<close>

definition py_isspace :: "nat \<Rightarrow> bool" where
  "py_isspace c \<longleftrightarrow>
     (0x09 \<le> c \<and> c \<le> 0x0D) \<or> (0x1C \<le> c \<and> c \<le> 0x20) \<or> c = 0x85 \<or> c = 0xA0
     \<or> c = 0x1680 \<or> (0x2000 \<le> c \<and> c \<le> 0x200A) \<or> c = 0x2028 \<or> c = 0x2029
     \<or> c = 0x202F \<or> c = 0x205F \<or> c = 0x3000"

definition strip :: "pystr \<Rightarrow> pystr" where
  "strip s = rev (dropWhile py_isspace (rev (dropWhile py_isspace s)))"

fun split_nl :: "pystr \<Rightarrow> pystr list" where
  "split_nl [] = [[]]"
| "split_nl (c # cs) =
     (if c = 10 then [] # split_nl cs
      else (case split_nl cs of [] \<Rightarrow> [[c]] | l # ls \<Rightarrow> (c # l) # ls))"

text \<open>
  \<open>predict_fake_news\<close>, lines 45 to 47. The vectorizer and the model are loaded from
  files that are not part of the program text, so they are parameters: \<open>vectorizer\<close> is
  \<open>vectorizer.transform\<close>, from a list of documents to a matrix, and \<open>model\<close> is
  \<open>model.predict\<close>, from a matrix to the array of predicted classes.
\<close>

definition predict_fake_news :: "(pystr list \<Rightarrow> 'm) \<Rightarrow> ('m \<Rightarrow> int list) \<Rightarrow> pystr \<Rightarrow> exn + int" where
  "predict_fake_news vectorizer model article =
     (let transformed = vectorizer [article] in
      case model transformed of [] \<Rightarrow> Inl IndexError | r # rs \<Rightarrow> Inr r)"

text \<open>
  \<open>@st.cache_data\<close>, line 52: results are remembered under the arguments of the call.
  A call found in the cache does not run the function; it returns the remembered value and
  puts the elements the function had put on the page there again. The only element the
  function ever puts on the page is the warning of line 93, so an entry holds the returned
  pair and the exceptions that were warned about. The cache is an association list, the
  newest entry first.
\<close>

fun warned :: "event \<Rightarrow> exn option" where
  "warned (St (WarningApiFailed e)) = Some e"
| "warned other = None"

type_synonym explain_cache = "((pystr \<times> int \<times> int \<times> real) \<times> (pyval \<times> bool) \<times> exn list) list"

definition cached_explain ::
  "explain_cache \<Rightarrow> secrets \<Rightarrow> pystr \<Rightarrow> int \<Rightarrow> int \<Rightarrow> real \<Rightarrow> remote
     \<Rightarrow> ((pyval \<times> bool) \<times> event list) \<times> explain_cache" where
  "cached_explain cache secrets article result max_tokens temperature remote =
     (case map_of cache (article, result, max_tokens, temperature) of
        Some (r, replay) \<Rightarrow> ((r, map (\<lambda>e. St (WarningApiFailed e)) replay), cache)
      | None \<Rightarrow>
          (case explain_with_huggingface secrets article result max_tokens temperature remote of
             (r, evs) \<Rightarrow>
               ((r, evs),
                ((article, result, max_tokens, temperature), (r, List.map_filter warned evs))
                  # cache)))"

definition article_label :: pystr where
  "article_label = [0x1F4DD] @ ascii '' Enter News Article Here:''"

definition check_label :: pystr where
  "check_label = [0x1F50D] @ ascii '' Check News''"

definition enter_article :: pystr where
  "enter_article = [0x26A0, 0xFE0F] @ ascii '' Please enter a news article to analyze.''"

definition verdict_heading :: pystr where
  "verdict_heading = [0x1F3F7, 0xFE0F] @ ascii '' Verdict & AI Reasoning''"

definition reasoning_heading :: pystr where
  "reasoning_heading = [0x1F916] @ ascii '' AI Reasoning''"

text \<open>
  Lines 116 to 186, for one run of the script: \<open>news_text\<close> is the content of the text
  area and \<open>clicked\<close> the value of \<open>st.button\<close>. The result is the effects of the run in
  order, the exception that ended it if one did, and the cache after it.
\<close>

definition script ::
  "(pystr list \<Rightarrow> 'm) \<Rightarrow> ('m \<Rightarrow> int list) \<Rightarrow> secrets \<Rightarrow> explain_cache \<Rightarrow> pystr \<Rightarrow> bool \<Rightarrow> remote
     \<Rightarrow> (event list \<times> exn option) \<times> explain_cache" where
  "script vectorizer model secrets cache news_text clicked remote =
     (let left = [St (TextArea article_label), St (Button check_label)]
                  @ (if clicked \<and> strip news_text = [] then [St (Warning enter_article)] else []);
          right = [St (Subheader verdict_heading)]
      in
      if strip news_text = [] then ((left @ right @ [St AwaitingInput], None), cache)
      else
        (case predict_fake_news vectorizer model news_text of
           Inl e \<Rightarrow> ((left @ right @ [CallPredict news_text], Some e), cache)
         | Inr result \<Rightarrow>
             (let verdict_bg = (if result = 1 then ascii ''#d4edda'' else ascii ''#f8d7da'');
                  ai_bg = (if result = 1 then ascii ''#e6f9e6'' else ascii ''#ffe6e6'');
                  emoji = (if result = 1 then [0x2705] else [0x1F6A8]);
                  verdict = verdict_text result;
                  verdict_color = (if result = 1 then ascii ''green'' else ascii ''red'');
                  shown = left @ right
                    @ [CallPredict news_text,
                       St (VerdictBox verdict_bg emoji verdict_color verdict),
                       St (Subheader reasoning_heading),
                       CallExplain news_text result]
              in
              case cached_explain cache secrets news_text result
                     default_max_tokens default_temperature remote of
                (((explanation, is_dynamic), evs), cache') \<Rightarrow>
                  (case explanation of
                     PStr s \<Rightarrow>
                       (let lines = split_nl (strip s);
                            reasoning_label =
                              (if is_dynamic then ascii ''Dynamic AI reasoning (Hugging Face)''
                               else ascii ''Offline fallback reasoning'')
                        in ((shown @ evs @ [St (ReasoningBox ai_bg reasoning_label lines), St Tip],
                             None), cache'))
                   | PNone \<Rightarrow> ((shown @ evs, Some AttributeError), cache')
                   | PBool b \<Rightarrow> ((shown @ evs, Some AttributeError), cache')
                   | PInt i \<Rightarrow> ((shown @ evs, Some AttributeError), cache')
                   | PFloat f \<Rightarrow> ((shown @ evs, Some AttributeError), cache')
                   | PList xs \<Rightarrow> ((shown @ evs, Some AttributeError), cache')
                   | PDict obj \<Rightarrow> ((shown @ evs, Some AttributeError), cache')))))"

text \<open>The verdicts a run shows.\<close>

fun shown_verdict :: "event \<Rightarrow> pystr option" where
  "shown_verdict (St (VerdictBox bg emoji color verdict)) = Some verdict"
| "shown_verdict other = None"

text \<open>The reasoning boxes a run shows: the label of the box and its lines.\<close>

fun shown_reasoning :: "event \<Rightarrow> (pystr \<times> pystr list) option" where
  "shown_reasoning (St (ReasoningBox bg reasoning_label lines)) = Some (reasoning_label, lines)"
| "shown_reasoning other = None"

section \<open>Basic facts\<close>

lemma ascii_Nil: "ascii [] = []"
  by (simp add: ascii_def)

lemma ascii_Cons: "ascii (c # cs) = of_char c # ascii cs"
  by (simp add: ascii_def)

lemmas ascii_eval = ascii_Nil ascii_Cons

lemma bearer_nonempty: "ascii ''Bearer '' \<noteq> []"
  by (simp add: ascii_eval)

lemma try_block_NoSecrets:
  "try_block (NoSecrets msg) a r mt t rem = (Inl (SecretsError msg), [])"
  by (simp add: try_block_def)

text \<open>
  With a secrets mapping the test of line 76 never fires: the header value begins with
  \<open>"Bearer "\<close> whatever the key is, so the request is always sent.
\<close>

lemma try_block_Secrets:
  "try_block (Secrets kvs) a r mt t rem =
     (let req = the_request (case map_of kvs (ascii ''HF_API_KEY'') of None \<Rightarrow> [] | Some k \<Rightarrow> k)
                  a r mt t
      in case rem of
           PostRaises e \<Rightarrow> (Inl e, [HttpPost req])
         | JsonRaises e \<Rightarrow> (Inl e, [HttpPost req])
         | Data data \<Rightarrow>
             (case read_data data of
                Inl e \<Rightarrow> (Inl e, [HttpPost req])
              | Inr v \<Rightarrow> (Inr (v, True), [HttpPost req])))"
  by (simp add: try_block_def the_headers_def bearer_nonempty Let_def split: option.splits)

lemma try_block_posts:
  "filter is_post (snd (try_block (Secrets kvs) a r mt t rem)) =
     [HttpPost (the_request (case map_of kvs (ascii ''HF_API_KEY'') of None \<Rightarrow> [] | Some k \<Rightarrow> k)
                  a r mt t)]"
  by (simp add: try_block_Secrets Let_def split: remote.splits sum.splits)

lemma explain_posts:
  "filter is_post (snd (explain_with_huggingface s a r mt t rem)) =
     filter is_post (snd (try_block s a r mt t rem))"
  by (simp add: explain_with_huggingface_def split: prod.splits sum.splits)

lemma explain_raised:
  assumes "fst (try_block s a r mt t rem) = Inl e"
  shows "fst (explain_with_huggingface s a r mt t rem) = (PStr (fallback_reasoning r), False)"
  using assms by (cases "try_block s a r mt t rem") (simp add: explain_with_huggingface_def)

lemma explain_returned:
  assumes "fst (try_block s a r mt t rem) = Inr v"
  shows "explain_with_huggingface s a r mt t rem = (v, snd (try_block s a r mt t rem))"
  using assms by (cases "try_block s a r mt t rem") (simp add: explain_with_huggingface_def)

lemma read_data_list:
  "read_data (PList (PDict obj # rest)) =
     (case map_of obj (ascii ''generated_text'') of
        None \<Rightarrow> Inl (KeyError (PStr (ascii ''generated_text'')))
      | Some v \<Rightarrow> Inr v)"
  by (simp add: read_data_def)

lemma read_data_Inr:
  assumes "read_data data = Inr v"
  shows "\<exists>obj rest. data = PList (PDict obj # rest)
           \<and> map_of obj (ascii ''generated_text'') = Some v"
proof (cases data)
  case (PList xs)
  show ?thesis
  proof (cases xs)
    case Nil
    with PList assms show ?thesis by (simp add: read_data_def)
  next
    case (Cons x rest)
    with PList assms have "getitem_key x (ascii ''generated_text'') = Inr v"
      by (simp add: read_data_def)
    then have "\<exists>obj. x = PDict obj \<and> map_of obj (ascii ''generated_text'') = Some v"
      by (cases x) (simp_all split: option.splits)
    with PList Cons show ?thesis by blast
  qed
next
  case (PStr s)
  with assms show ?thesis by (cases s) (simp_all add: read_data_def)
next
  case (PDict obj)
  with assms show ?thesis by (simp add: read_data_def split: if_splits option.splits)
qed (use assms in \<open>simp_all add: read_data_def\<close>)

lemma read_data_failure:
  assumes "failure_mode (Data data)"
  shows "\<exists>e. read_data data = Inl e"
proof (cases "read_data data")
  case (Inl e)
  then show ?thesis by blast
next
  case (Inr v)
  from read_data_Inr [OF Inr] obtain obj rest
    where "data = PList (PDict obj # rest)" "map_of obj (ascii ''generated_text'') = Some v"
    by blast
  with assms show ?thesis by simp
qed

lemma try_block_failure:
  assumes "failure_mode rem"
  shows "\<exists>e. fst (try_block (Secrets kvs) a r mt t rem) = Inl e"
proof (cases rem)
  case (Data data)
  with assms obtain e where "read_data data = Inl e"
    using read_data_failure by blast
  with Data show ?thesis by (simp add: try_block_Secrets)
qed (simp_all add: try_block_Secrets)

lemma explain_of_pair:
  "explain s a r mt t rem =
     \<lparr> expl_text = fst (fst (explain_with_huggingface s a r mt t rem)),
       expl_source = (if snd (fst (explain_with_huggingface s a r mt t rem))
                      then REMOTE else FALLBACK) \<rparr>"
  by (simp add: explain_def split: prod.splits)

lemma fallback_template: "fallback_reasoning r = template (label_of r)"
  by (simp add: fallback_reasoning_def label_of_def)

lemma reasoning_real_nonempty: "reasoning_real \<noteq> []"
  by (simp add: reasoning_real_def ascii_eval)

lemma reasoning_fake_nonempty: "reasoning_fake \<noteq> []"
  by (simp add: reasoning_fake_def ascii_eval)

lemma real_prefix: "prefix (ascii ''1. Summary'') reasoning_real"
  by (simp add: reasoning_real_def ascii_eval)

lemma real_sublist: "sublist (ascii ''Likely real'') reasoning_real"
  by (simp add: reasoning_real_def nl_def ascii_eval sublist_Cons_right)

lemma fake_sublist: "sublist (ascii ''Likely fake'') reasoning_fake"
  by (simp add: reasoning_fake_def nl_def ascii_eval sublist_Cons_right)

lemma strip_blank: "strip s = [] \<longleftrightarrow> (\<forall>c \<in> set s. py_isspace c)"
proof
  assume empty: "strip s = []"
  then have all: "\<forall>c \<in> set (dropWhile py_isspace s). py_isspace c"
    by (simp add: strip_def)
  have "dropWhile py_isspace s = []"
  proof (rule ccontr)
    assume ne: "dropWhile py_isspace s \<noteq> []"
    then have "\<not> py_isspace (hd (dropWhile py_isspace s))"
      by (rule hd_dropWhile)
    moreover from ne have "hd (dropWhile py_isspace s) \<in> set (dropWhile py_isspace s)"
      by simp
    ultimately show False using all by blast
  qed
  then show "\<forall>c \<in> set s. py_isspace c"
    by simp
next
  assume "\<forall>c \<in> set s. py_isspace c"
  then have "dropWhile py_isspace s = []"
    by simp
  then show "strip s = []"
    by (simp only: strip_def rev.simps dropWhile.simps)
qed

lemma try_block_no_verdict:
  "ev \<in> set (snd (try_block s a r mt t rem)) \<Longrightarrow> shown_verdict ev = None"
  by (cases s) (auto simp add: try_block_NoSecrets try_block_Secrets Let_def
                     split: remote.splits sum.splits)

lemma explain_no_verdict:
  "ev \<in> set (snd (explain_with_huggingface s a r mt t rem)) \<Longrightarrow> shown_verdict ev = None"
  using try_block_no_verdict [of ev s a r mt t rem]
  by (cases "try_block s a r mt t rem")
     (auto simp add: explain_with_huggingface_def split: sum.splits)

lemma cached_explain_no_verdict:
  "ev \<in> set (snd (fst (cached_explain cache s a r mt t rem))) \<Longrightarrow> shown_verdict ev = None"
  using explain_no_verdict [of ev s a r mt t rem]
  by (cases "explain_with_huggingface s a r mt t rem")
     (auto simp add: cached_explain_def split: option.splits)

lemma map_filter_none:
  "(\<And>ev. ev \<in> set evs \<Longrightarrow> f ev = None) \<Longrightarrow> List.map_filter f evs = []"
  by (induction evs) simp_all

lemma map_filter_app:
  "List.map_filter f (xs @ ys) = List.map_filter f xs @ List.map_filter f ys"
  by (simp add: List.map_filter_def)

lemma try_block_no_reasoning:
  "ev \<in> set (snd (try_block s a r mt t rem)) \<Longrightarrow> shown_reasoning ev = None"
  by (cases s) (auto simp add: try_block_NoSecrets try_block_Secrets Let_def
                     split: remote.splits sum.splits)

lemma cached_explain_miss_raised:
  assumes "map_of cache (a, r, mt, t) = None"
    and "fst (try_block s a r mt t rem) = Inl e"
  shows "fst (cached_explain cache s a r mt t rem)
           = ((PStr (fallback_reasoning r), False),
              snd (try_block s a r mt t rem) @ [St (WarningApiFailed e)])"
  using assms
  by (cases "try_block s a r mt t rem")
     (simp add: cached_explain_def explain_with_huggingface_def)

section \<open>The claims\<close>

text \<open>
  C1. The claim: when the credential \<open>HF_API_KEY\<close> is absent from the configuration,
  \<open>explain\<close> returns the canned text with source \<open>FALLBACK\<close> and no remote call
  succeeds. The program does not do this. With a secrets mapping that has no
  \<open>HF_API_KEY\<close>, the header value is \<open>"Bearer "\<close>, which is not empty, so the test of
  line 76 lets the run through: the request is sent with that header, and when the service
  answers with a well-formed body the result is the service's text with source \<open>REMOTE\<close>.
\<close>

theorem missing_key_request_sent:
  "explain_with_huggingface (Secrets []) (ascii ''x'') 1 default_max_tokens default_temperature
     (Data (PList [PDict [(ascii ''generated_text'', PStr (ascii ''hi''))]]))
   = ((PStr (ascii ''hi''), True),
      [HttpPost \<lparr> url = API_URL,
                  headers = [(ascii ''Authorization'', ascii ''Bearer '')],
                  json = PDict [(ascii ''inputs'', PStr (prompt (ascii ''x'') 1)),
                                (ascii ''parameters'',
                                   PDict [(ascii ''max_new_tokens'', PInt 500),
                                          (ascii ''temperature'', PFloat (7 / 10))])],
                  timeout = 60 \<rparr>])"
  by (simp add: explain_with_huggingface_def try_block_Secrets read_data_list the_request_def
        the_headers_def default_max_tokens_def default_temperature_def)

text \<open>
  C2. The claim: for every input and every behaviour of the service, \<open>explain\<close> returns a
  non-empty string as text and \<open>REMOTE\<close> or \<open>FALLBACK\<close> as source, and raises nothing.
  The text is not always a non-empty string: what the service puts under
  \<open>generated_text\<close> is returned unchecked, here the empty string.
\<close>

theorem explain_empty_text_counterexample:
  "explain (Secrets [(ascii ''HF_API_KEY'', ascii ''k'')]) (ascii ''x'') 1 500 (7 / 10)
     (Data (PList [PDict [(ascii ''generated_text'', PStr [])]]))
   = \<lparr> expl_text = PStr [], expl_source = REMOTE \<rparr>"
  by (simp add: explain_of_pair explain_with_huggingface_def try_block_Secrets read_data_list)

text \<open>
  C2 as amended: \<open>explain\<close> always returns, every exception of the \<open>try\<close> block being
  handled, and the result is one of two: source \<open>FALLBACK\<close> with the canned text of the
  label, which is a non-empty string; or source \<open>REMOTE\<close> with the value the service put
  under \<open>generated_text\<close> in the first element of the array it returned, whatever that
  value is.
\<close>

theorem explain_always_returns:
  "(explain s a r mt t rem
      = \<lparr> expl_text = PStr (fallback_reasoning r), expl_source = FALLBACK \<rparr>
    \<and> fallback_reasoning r \<noteq> [])
   \<or> (\<exists>obj rest v. rem = Data (PList (PDict obj # rest))
         \<and> map_of obj (ascii ''generated_text'') = Some v
         \<and> explain s a r mt t rem = \<lparr> expl_text = v, expl_source = REMOTE \<rparr>)"
proof (cases "fst (try_block s a r mt t rem)")
  case (Inl e)
  have "fallback_reasoning r \<noteq> []"
    by (simp add: fallback_reasoning_def reasoning_real_nonempty reasoning_fake_nonempty)
  with explain_raised [OF Inl] show ?thesis
    by (simp add: explain_of_pair)
next
  case (Inr res)
  then obtain kvs where s: "s = Secrets kvs"
    by (cases s) (simp_all add: try_block_NoSecrets)
  from Inr s obtain data v where rem: "rem = Data data" and v: "read_data data = Inr v"
    and res: "res = (v, True)"
    by (cases rem) (auto simp add: try_block_Secrets Let_def split: sum.splits)
  from read_data_Inr [OF v] obtain obj rest
    where "data = PList (PDict obj # rest)" "map_of obj (ascii ''generated_text'') = Some v"
    by blast
  with rem res explain_returned [OF Inr] show ?thesis
    by (simp add: explain_of_pair)
qed

text \<open>
  C3. When the request is answered and the body is an array whose first element is an
  object with a string under \<open>generated_text\<close>, \<open>explain\<close> returns source \<open>REMOTE\<close>
  and that very string as text.
\<close>

theorem remote_text_verbatim:
  assumes "map_of obj (ascii ''generated_text'') = Some (PStr g)"
  shows "explain (Secrets kvs) a r mt t (Data (PList (PDict obj # rest)))
           = \<lparr> expl_text = PStr g, expl_source = REMOTE \<rparr>"
  using assms
  by (simp add: explain_of_pair explain_with_huggingface_def try_block_Secrets read_data_list)

theorem remote_text_verbatim_witness:
  "map_of [(ascii ''generated_text'', PStr (ascii ''1. Summary: fine''))] (ascii ''generated_text'')
     = Some (PStr (ascii ''1. Summary: fine''))
   \<and> explain (Secrets [(ascii ''HF_API_KEY'', ascii ''k'')]) (ascii ''news'') 0 500 (7 / 10)
        (Data (PList [PDict [(ascii ''generated_text'', PStr (ascii ''1. Summary: fine''))]]))
      = \<lparr> expl_text = PStr (ascii ''1. Summary: fine''), expl_source = REMOTE \<rparr>"
proof -
  have h: "map_of [(ascii ''generated_text'', PStr (ascii ''1. Summary: fine''))]
             (ascii ''generated_text'') = Some (PStr (ascii ''1. Summary: fine''))"
    by simp
  from h remote_text_verbatim [OF h] show ?thesis by simp
qed

text \<open>
  C4. When the body of the answer is an object with an \<open>error\<close> field, \<open>explain\<close>
  returns the canned text of the label with source \<open>FALLBACK\<close>.
\<close>

theorem error_field_fallback:
  assumes "map_of obj (ascii ''error'') = Some v"
  shows "explain s a r mt t (Data (PDict obj))
           = \<lparr> expl_text = PStr (template (label_of r)), expl_source = FALLBACK \<rparr>"
proof -
  have "\<exists>e. fst (try_block s a r mt t (Data (PDict obj))) = Inl e"
  proof (cases s)
    case (NoSecrets msg)
    then show ?thesis by (simp add: try_block_NoSecrets)
  next
    case (Secrets kvs)
    with assms show ?thesis by (simp add: try_block_Secrets read_data_def)
  qed
  then obtain e where "fst (try_block s a r mt t (Data (PDict obj))) = Inl e" ..
  from explain_raised [OF this] show ?thesis
    by (simp add: explain_of_pair fallback_template)
qed

theorem error_field_fallback_witness:
  "map_of [(ascii ''error'', PStr (ascii ''Invalid credentials''))] (ascii ''error'')
     = Some (PStr (ascii ''Invalid credentials''))
   \<and> explain (Secrets [(ascii ''HF_API_KEY'', ascii ''k'')]) (ascii ''news'') 0 500 (7 / 10)
        (Data (PDict [(ascii ''error'', PStr (ascii ''Invalid credentials''))]))
      = \<lparr> expl_text = PStr reasoning_fake, expl_source = FALLBACK \<rparr>"
proof -
  have h: "map_of [(ascii ''error'', PStr (ascii ''Invalid credentials''))] (ascii ''error'')
             = Some (PStr (ascii ''Invalid credentials''))"
    by simp
  from h error_field_fallback [OF h, of _ _ 0] show ?thesis
    by (simp add: label_of_def)
qed

text \<open>
  C5. Every failure of the remote attempt (the request raises, the body is not JSON, the
  body is an object with an \<open>error\<close> field, or no \<open>generated_text\<close> is found at the
  head of the array, the empty array included) gives the same result, the canned text of
  the label with source \<open>FALLBACK\<close>, after exactly one request and whatever the cause.
  The attempt is made whenever the secrets mapping can be read, so that is where the
  theorem starts; it describes one execution of the function body.
\<close>

theorem failures_collapse:
  assumes "failure_mode rem"
  shows "explain (Secrets kvs) a r mt t rem
           = \<lparr> expl_text = PStr (template (label_of r)), expl_source = FALLBACK \<rparr>
         \<and> length (filter is_post (snd (explain_with_huggingface (Secrets kvs) a r mt t rem))) = 1"
proof -
  from try_block_failure [OF assms] obtain e
    where "fst (try_block (Secrets kvs) a r mt t rem) = Inl e" by blast
  from explain_raised [OF this]
  have "explain (Secrets kvs) a r mt t rem
          = \<lparr> expl_text = PStr (template (label_of r)), expl_source = FALLBACK \<rparr>"
    by (simp add: explain_of_pair fallback_template)
  moreover
  have "length (filter is_post (snd (explain_with_huggingface (Secrets kvs) a r mt t rem))) = 1"
    by (simp add: explain_posts try_block_posts)
  ultimately show ?thesis by simp
qed

theorem failures_collapse_witness:
  "failure_mode (Data (PList []))
   \<and> explain (Secrets [(ascii ''HF_API_KEY'', ascii ''k'')]) (ascii ''news'') 1 500 (7 / 10)
        (Data (PList []))
      = \<lparr> expl_text = PStr reasoning_real, expl_source = FALLBACK \<rparr>
   \<and> length (filter is_post (snd (explain_with_huggingface
        (Secrets [(ascii ''HF_API_KEY'', ascii ''k'')]) (ascii ''news'') 1 500 (7 / 10)
        (Data (PList []))))) = 1"
proof -
  have h: "failure_mode (Data (PList []))"
    by simp
  from h failures_collapse [OF h, of _ _ 1] show ?thesis
    by (simp add: label_of_def)
qed

text \<open>
  C6. The claim: with no credential configured the result has source \<open>FALLBACK\<close>; for
  the label \<open>REAL\<close> its text starts with \<open>1. Summary\<close> and contains \<open>Likely real\<close>,
  and for the label \<open>FAKE\<close> it contains \<open>Likely fake\<close>. The program does not do this,
  for the reason given under C1: with a secrets mapping that has no \<open>HF_API_KEY\<close> the
  test of line 76 lets the run through and the request is sent. When the service answers
  with a well-formed body, the result for either label is the service's text with source
  \<open>REMOTE\<close>, and that text need not have any of the three properties.
\<close>

theorem missing_key_text_from_service:
  "explain (Secrets []) (ascii ''x'') 1 default_max_tokens default_temperature
     (Data (PList [PDict [(ascii ''generated_text'', PStr (ascii ''hi''))]]))
     = \<lparr> expl_text = PStr (ascii ''hi''), expl_source = REMOTE \<rparr>
   \<and> explain (Secrets []) (ascii ''x'') 0 default_max_tokens default_temperature
       (Data (PList [PDict [(ascii ''generated_text'', PStr (ascii ''hi''))]]))
       = \<lparr> expl_text = PStr (ascii ''hi''), expl_source = REMOTE \<rparr>
   \<and> \<not> prefix (ascii ''1. Summary'') (ascii ''hi'')
   \<and> \<not> sublist (ascii ''Likely real'') (ascii ''hi'')
   \<and> \<not> sublist (ascii ''Likely fake'') (ascii ''hi'')"
  by (simp add: explain_of_pair explain_with_huggingface_def try_block_Secrets read_data_list
        ascii_eval sublist_Cons_right)

text \<open>
  C7. When the article submitted with the button is empty or consists of whitespace only,
  the run shows the warning that asks for an article and the box that awaits input; the
  classifier and the explainer are not called, no request is sent, no verdict is shown and
  the cache is left as it was.
\<close>

theorem blank_input_rejected:
  assumes "list_all py_isspace news_text"
  shows "script vectorizer model secrets cache news_text True remote
           = (([St (TextArea article_label), St (Button check_label),
                St (Warning enter_article),
                St (Subheader verdict_heading), St AwaitingInput], None), cache)"
proof -
  from assms have "strip news_text = []"
    by (simp add: strip_blank list_all_iff)
  then show ?thesis
    by (simp add: script_def)
qed

theorem blank_input_rejected_witness:
  "list_all py_isspace [32, 9, 10, 160]
   \<and> script (\<lambda>docs. docs) (\<lambda>m. [1]) (Secrets [(ascii ''HF_API_KEY'', ascii ''k'')]) []
        [32, 9, 10, 160] True
        (Data (PList [PDict [(ascii ''generated_text'', PStr (ascii ''hi''))]]))
      = (([St (TextArea article_label), St (Button check_label),
           St (Warning enter_article),
           St (Subheader verdict_heading), St AwaitingInput], None), [])"
proof -
  have h: "list_all py_isspace [32, 9, 10, 160]"
    by (simp add: py_isspace_def)
  from h blank_input_rejected [OF h] show ?thesis by simp
qed

text \<open>
  C8. The requests of a run of \<open>explain\<close>: none when the secrets cannot be read, and
  otherwise exactly one, a POST to the fixed address with the header
  \<open>Authorization: Bearer\<close> followed by the key, the JSON body
  \<open>{inputs: prompt, parameters: {max_new_tokens: max_tokens, temperature: temperature}}\<close>
  and the timeout 60. The defaults of the two parameters are 500 and 0.7.
\<close>

theorem request_shape:
  "filter is_post (snd (explain_with_huggingface (Secrets kvs) a r mt t rem))
     = [HttpPost \<lparr> url = API_URL,
                   headers = [(ascii ''Authorization'',
                               ascii ''Bearer ''
                                 @ (case map_of kvs (ascii ''HF_API_KEY'') of
                                      None \<Rightarrow> [] | Some k \<Rightarrow> k))],
                   json = PDict [(ascii ''inputs'', PStr (prompt a r)),
                                 (ascii ''parameters'',
                                    PDict [(ascii ''max_new_tokens'', PInt mt),
                                           (ascii ''temperature'', PFloat t)])],
                   timeout = 60 \<rparr>]
   \<and> filter is_post (snd (explain_with_huggingface (NoSecrets msg) a r mt t rem)) = []
   \<and> default_max_tokens = 500 \<and> default_temperature = 7 / 10"
  by (simp add: explain_posts try_block_posts try_block_NoSecrets the_request_def
        the_headers_def default_max_tokens_def default_temperature_def)

text \<open>
  C9. Two runs of \<open>explain\<close> that both take the failure path with the same label return
  the same Explanation, the canned text of that label with source \<open>FALLBACK\<close>, whatever
  the secrets, the articles, the parameters, the class codes behind the label and the
  causes of the failures.
\<close>

theorem fallback_deterministic:
  assumes "fst (try_block s1 a1 r1 mt1 t1 rem1) = Inl e1"
    and "fst (try_block s2 a2 r2 mt2 t2 rem2) = Inl e2"
    and "label_of r1 = label_of r2"
  shows "explain s1 a1 r1 mt1 t1 rem1 = explain s2 a2 r2 mt2 t2 rem2
         \<and> explain s1 a1 r1 mt1 t1 rem1
             = \<lparr> expl_text = PStr (template (label_of r1)), expl_source = FALLBACK \<rparr>
         \<and> explain s2 a2 r2 mt2 t2 rem2
             = \<lparr> expl_text = PStr (template (label_of r1)), expl_source = FALLBACK \<rparr>"
  using explain_raised [OF assms(1)] explain_raised [OF assms(2)] assms(3)
  by (simp add: explain_of_pair fallback_template)

theorem fallback_deterministic_witness:
  "explain (NoSecrets []) (ascii ''one'') 0 500 (7 / 10) (Data PNone)
     = explain (Secrets [(ascii ''HF_API_KEY'', ascii ''k'')]) (ascii ''another'') 2 100 1
         (PostRaises (RequestException (ascii ''timed out'')))
   \<and> explain (NoSecrets []) (ascii ''one'') 0 500 (7 / 10) (Data PNone)
       = \<lparr> expl_text = PStr reasoning_fake, expl_source = FALLBACK \<rparr>
   \<and> explain (Secrets [(ascii ''HF_API_KEY'', ascii ''k'')]) (ascii ''another'') 2 100 1
         (PostRaises (RequestException (ascii ''timed out'')))
       = \<lparr> expl_text = PStr reasoning_fake, expl_source = FALLBACK \<rparr>"
proof -
  have h1: "fst (try_block (NoSecrets []) (ascii ''one'') 0 500 (7 / 10) (Data PNone))
              = Inl (SecretsError [])"
    by (simp add: try_block_NoSecrets)
  have h2: "fst (try_block (Secrets [(ascii ''HF_API_KEY'', ascii ''k'')]) (ascii ''another'')
                   2 100 1 (PostRaises (RequestException (ascii ''timed out''))))
              = Inl (RequestException (ascii ''timed out''))"
    by (simp add: try_block_Secrets)
  have h3: "label_of 0 = label_of 2"
    by (simp add: label_of_def)
  from fallback_deterministic [OF h1 h2 h3] show ?thesis
    by (simp add: label_of_def)
qed

text \<open>
  C10. The raw output of the classifier is only ever compared with 1. On non-blank input,
  with \<open>result\<close> the first class the model predicts, the one verdict shown is \<open>REAL\<close>
  when \<open>result\<close> is 1 and \<open>FAKE\<close> for every other value; and when the explainer runs and
  fails, the one reasoning box shown holds the lines of the real-label text when
  \<open>result\<close> is 1 and of the fake-label text for every other value.
\<close>

theorem verdict_by_test_for_one:
  assumes "strip news_text \<noteq> []"
    and "model (vectorizer [news_text]) = result # rest"
  shows "List.map_filter shown_verdict
           (fst (fst (script vectorizer model secrets cache news_text clicked remote)))
           = [if result = 1 then ascii ''REAL'' else ascii ''FAKE'']
         \<and> (map_of cache (news_text, result, default_max_tokens, default_temperature) = None
              \<and> fst (try_block secrets news_text result default_max_tokens default_temperature
                        remote) = Inl e
            \<longrightarrow> List.map_filter shown_reasoning
                  (fst (fst (script vectorizer model secrets cache news_text clicked remote)))
                  = [(ascii ''Offline fallback reasoning'',
                      split_nl (strip (if result = 1 then reasoning_real else reasoning_fake)))])"
proof
  obtain expl dyn evs cache'
    where ce: "cached_explain cache secrets news_text result
                 default_max_tokens default_temperature remote = (((expl, dyn), evs), cache')"
    by (metis prod.exhaust)
  have "ev \<in> set evs \<Longrightarrow> shown_verdict ev = None" for ev
    using cached_explain_no_verdict
      [of ev cache secrets news_text result default_max_tokens default_temperature remote]
    by (simp add: ce)
  then have nv: "List.map_filter shown_verdict evs = []"
    by (rule map_filter_none)
  show "List.map_filter shown_verdict
          (fst (fst (script vectorizer model secrets cache news_text clicked remote)))
          = [if result = 1 then ascii ''REAL'' else ascii ''FAKE'']"
    using assms
    by (cases expl)
       (simp_all add: script_def predict_fake_news_def ce map_filter_app nv verdict_text_def)
next
  show "map_of cache (news_text, result, default_max_tokens, default_temperature) = None
          \<and> fst (try_block secrets news_text result default_max_tokens default_temperature
                    remote) = Inl e
        \<longrightarrow> List.map_filter shown_reasoning
              (fst (fst (script vectorizer model secrets cache news_text clicked remote)))
              = [(ascii ''Offline fallback reasoning'',
                  split_nl (strip (if result = 1 then reasoning_real else reasoning_fake)))]"
  proof
    assume h: "map_of cache (news_text, result, default_max_tokens, default_temperature) = None
                 \<and> fst (try_block secrets news_text result default_max_tokens
                           default_temperature remote) = Inl e"
    let ?evs = "snd (try_block secrets news_text result default_max_tokens default_temperature
                       remote)"
    from h obtain cache'
      where ce: "cached_explain cache secrets news_text result
                   default_max_tokens default_temperature remote
                 = (((PStr (fallback_reasoning result), False),
                     ?evs @ [St (WarningApiFailed e)]), cache')"
      using cached_explain_miss_raised
        [of cache news_text result default_max_tokens default_temperature secrets remote e]
      by (metis prod.collapse)
    have "List.map_filter shown_reasoning ?evs = []"
      by (rule map_filter_none) (rule try_block_no_reasoning)
    then show "List.map_filter shown_reasoning
                 (fst (fst (script vectorizer model secrets cache news_text clicked remote)))
               = [(ascii ''Offline fallback reasoning'',
                   split_nl (strip (if result = 1 then reasoning_real else reasoning_fake)))]"
      using assms
      by (simp add: script_def predict_fake_news_def ce map_filter_app fallback_reasoning_def)
  qed
qed

theorem verdict_by_test_for_one_witness:
  "List.map_filter shown_verdict
     (fst (fst (script (\<lambda>docs. docs) (\<lambda>m. [7]) (NoSecrets []) [] (ascii ''Some news'') False
                  (Data PNone))))
     = [ascii ''FAKE'']
   \<and> List.map_filter shown_reasoning
       (fst (fst (script (\<lambda>docs. docs) (\<lambda>m. [7]) (NoSecrets []) [] (ascii ''Some news'') False
                    (Data PNone))))
       = [(ascii ''Offline fallback reasoning'', split_nl (strip reasoning_fake))]
   \<and> List.map_filter shown_verdict
       (fst (fst (script (\<lambda>docs. docs) (\<lambda>m. [1]) (NoSecrets []) [] (ascii ''Some news'') False
                    (Data PNone))))
       = [ascii ''REAL'']
   \<and> List.map_filter shown_reasoning
       (fst (fst (script (\<lambda>docs. docs) (\<lambda>m. [1]) (NoSecrets []) [] (ascii ''Some news'') False
                    (Data PNone))))
       = [(ascii ''Offline fallback reasoning'', split_nl (strip reasoning_real))]"
proof -
  have h1: "strip (ascii ''Some news'') \<noteq> []"
    by (simp add: strip_def py_isspace_def ascii_eval)
  have h3: "map_of [] (ascii ''Some news'', r, default_max_tokens, default_temperature) = None"
    for r :: int
    by simp
  have h4: "fst (try_block (NoSecrets []) (ascii ''Some news'') r default_max_tokens
                   default_temperature (Data PNone)) = Inl (SecretsError [])" for r
    by (simp add: try_block_NoSecrets)
  from verdict_by_test_for_one
         [where vectorizer = "\<lambda>docs. docs" and model = "\<lambda>m. [7]" and result = 7
            and rest = "[]" and news_text = "ascii ''Some news''" and secrets = "NoSecrets []"
            and cache = "[]" and clicked = False and remote = "Data PNone"
            and e = "SecretsError []"]
       verdict_by_test_for_one
         [where vectorizer = "\<lambda>docs. docs" and model = "\<lambda>m. [1]" and result = 1
            and rest = "[]" and news_text = "ascii ''Some news''" and secrets = "NoSecrets []"
            and cache = "[]" and clicked = False and remote = "Data PNone"
            and e = "SecretsError []"]
       h1 h3 h4
  show ?thesis by simp
qed

end
